theory Spec2Isabelle
  imports Main "HOL-Library.Sublist"
begin

section \<open>JavaScript strings and optional values\<close>

text \<open>
  The program is \<^verbatim>\<open>api/rss.js\<close>: a request handler and the function
  \<^verbatim>\<open>generateRSSFeed\<close>. A JavaScript string is modelled as a \<^typ>\<open>string\<close>, read as
  its UTF-8 bytes: every pattern and every replaced character of the program is ASCII,
  and an ASCII byte never occurs inside a multi-byte sequence. A property that may be
  missing is an \<^typ>\<open>string option\<close>; \<open>None\<close> is \<^verbatim>\<open>undefined\<close>, and
  \<^verbatim>\<open>null\<close> behaves alike wherever the program only tests the value.
\<close>

text \<open>The truth value JavaScript gives a string-or-missing value: the empty string is falsy.\<close>

definition truthy :: "string option \<Rightarrow> bool" where
  "truthy v = (case v of None \<Rightarrow> False | Some s \<Rightarrow> s \<noteq> [])"

text \<open>\<^verbatim>\<open>v || d\<close> for a string-or-missing \<^verbatim>\<open>v\<close> and a string \<^verbatim>\<open>d\<close>.\<close>

definition or_else :: "string option \<Rightarrow> string \<Rightarrow> string" where
  "or_else v d = (case v of None \<Rightarrow> d | Some s \<Rightarrow> if s = [] then d else s)"

text \<open>
  A value interpolated into a template literal: a missing one prints as
  \<^verbatim>\<open>undefined\<close>.
\<close>

definition interpolate :: "string option \<Rightarrow> string" where
  "interpolate v = (case v of None \<Rightarrow> ''undefined'' | Some s \<Rightarrow> s)"

text \<open>A non-negative integer interpolated into a template literal: its decimal digits.\<close>

definition digit :: "nat \<Rightarrow> char" where
  "digit n = char_of (48 + n)"

fun decimal :: "nat \<Rightarrow> string" where
  "decimal n = (if n < 10 then [digit n] else decimal (n div 10) @ [digit (n mod 10)])"

declare decimal.simps [simp del]

definition pad_zero :: "nat \<Rightarrow> nat \<Rightarrow> string" where
  "pad_zero w n = replicate (w - length (decimal n)) (CHR ''0'') @ decimal n"

section \<open>Dates\<close>

text \<open>
  \<^verbatim>\<open>new Date(v)\<close> for a number \<^verbatim>\<open>v\<close> is the instant \<^verbatim>\<open>v\<close> milliseconds after
  the epoch, and is invalid beyond 8.64e15 milliseconds on either side. The functions
  below are ECMAScript's Day, WeekDay, YearFromTime, MonthFromTime, DateFromTime,
  \<^verbatim>\<open>Date.prototype.toUTCString\<close> and \<^verbatim>\<open>Date.prototype.toISOString\<close> on integers.
\<close>

definition day_of :: "int \<Rightarrow> int" where
  "day_of t = t div 86400000"

definition civil :: "int \<Rightarrow> int \<times> nat \<times> nat" where
  "civil days =
     (let z = days + 719468;
          era = z div 146097;
          doe = z - era * 146097;
          yoe = (doe - doe div 1460 + doe div 36524 - doe div 146096) div 365;
          doy = doe - (365 * yoe + yoe div 4 - yoe div 100);
          mp = (5 * doy + 2) div 153;
          d = doy - (153 * mp + 2) div 5 + 1;
          m = (if mp < 10 then mp + 3 else mp - 9);
          y = yoe + era * 400 + (if m \<le> 2 then 1 else 0)
      in (y, nat m, nat d))"

definition week_day_name :: "int \<Rightarrow> string" where
  "week_day_name t =
     [''Sun'', ''Mon'', ''Tue'', ''Wed'', ''Thu'', ''Fri'', ''Sat''] ! nat ((day_of t + 4) mod 7)"

definition month_name :: "nat \<Rightarrow> string" where
  "month_name m =
     (if 1 \<le> m \<and> m \<le> 12
      then [''Jan'', ''Feb'', ''Mar'', ''Apr'', ''May'', ''Jun'',
            ''Jul'', ''Aug'', ''Sep'', ''Oct'', ''Nov'', ''Dec''] ! (m - 1)
      else ''???'')"

definition hms :: "int \<Rightarrow> string" where
  "hms t =
     pad_zero 2 (nat ((t div 3600000) mod 24)) @ '':'' @
     pad_zero 2 (nat ((t div 60000) mod 60)) @ '':'' @
     pad_zero 2 (nat ((t div 1000) mod 60))"

definition valid_time :: "int \<Rightarrow> bool" where
  "valid_time t = (\<bar>t\<bar> \<le> 8640000000000000)"

definition toUTCString :: "int \<Rightarrow> string" where
  "toUTCString t =
     (if \<not> valid_time t then ''Invalid Date''
      else case civil (day_of t) of (y, m, d) \<Rightarrow>
        week_day_name t @ '', '' @ pad_zero 2 d @ '' '' @ month_name m @ '' '' @
        (if y < 0 then ''-'' else '''') @ pad_zero 4 (nat \<bar>y\<bar>) @ '' '' @ hms t @ '' GMT'')"

text \<open>
  \<^verbatim>\<open>toISOString\<close> is only called on the current time, which is a valid date, so the
  RangeError of an invalid date is not a case of the model.
\<close>

definition toISOString :: "int \<Rightarrow> string" where
  "toISOString t =
     (case civil (day_of t) of (y, m, d) \<Rightarrow>
        (if 0 \<le> y \<and> y \<le> 9999 then pad_zero 4 (nat y)
         else (if y < 0 then ''-'' else ''+'') @ pad_zero 6 (nat \<bar>y\<bar>)) @
        ''-'' @ pad_zero 2 m @ ''-'' @ pad_zero 2 d @ ''T'' @ hms t @ ''.'' @
        pad_zero 3 (nat (t mod 1000)) @ ''Z'')"

section \<open>The feed renderer\<close>

subsection \<open>Data\<close>

text \<open>
  The configuration object and a post record as the upstream API returns it. Only the
  fields the renderer reads are kept; each may be missing. \<^verbatim>\<open>publish_date\<close> is a
  number, which \<^verbatim>\<open>new Date\<close> reads as milliseconds. The fields have the types of
  the specification's data model; a field of another JSON type (a number as title, say) is
  outside the model.
\<close>

record config =
  title :: string
  description :: string
  feedUrl :: string
  authorEmail :: string

record free_content =
  web :: "string option"

record post_content =
  free :: "free_content option"

text \<open>
  The \<^verbatim>\<open>id\<close> of a post is only ever interpolated, where \<^verbatim>\<open>undefined\<close> and
  \<^verbatim>\<open>null\<close> print differently.
\<close>

datatype id_value = IdUndefined | IdNull | IdString string

record post =
  post_id :: id_value
  status :: "string option"
  publish_date :: "int option"
  web_url :: "string option"
  post_title :: "string option"
  subtitle :: "string option"
  content :: "post_content option"

subsection \<open>escapeXml\<close>

text \<open>\<^verbatim>\<open>str.replace(/c/g, r)\<close> for a one-character pattern.\<close>

fun replace_all :: "char \<Rightarrow> string \<Rightarrow> string \<Rightarrow> string" where
  "replace_all c r [] = []"
| "replace_all c r (x # xs) = (if x = c then r @ replace_all c r xs else x # replace_all c r xs)"

definition escapeXml :: "string \<Rightarrow> string" where
  \<open>escapeXml str =
     (if str = [] then []
      else replace_all (CHR 0x27) ''&#39;''
            (replace_all (CHR 0x22) ''&quot;''
              (replace_all (CHR ''>'') ''&gt;''
                (replace_all (CHR ''<'') ''&lt;''
                  (replace_all (CHR ''&'') ''&amp;'' str)))))\<close>

subsection \<open>cleanHtmlContent\<close>

text \<open>
  The two regular expressions are \<^verbatim>\<open>/<script[^>]*>[\s\S]*?<\/script>/gi\<close> and the
  same for \<^verbatim>\<open>style\<close>. Under the \<^verbatim>\<open>i\<close> flag without \<^verbatim>\<open>u\<close> a pattern letter
  matches exactly its two ASCII cases.
\<close>

definition upper :: "char \<Rightarrow> char" where
  "upper c = (let n = of_char c :: nat in if 97 \<le> n \<and> n \<le> 122 then char_of (n - 32) else c)"

fun prefix_ci :: "string \<Rightarrow> string \<Rightarrow> bool" where
  "prefix_ci [] s = True"
| "prefix_ci (p # ps) [] = False"
| "prefix_ci (p # ps) (c # cs) = (upper p = upper c \<and> prefix_ci ps cs)"

text \<open>\<^verbatim>\<open>[^>]*>\<close>: the text after the first \<^verbatim>\<open>>\<close>, if there is one.\<close>

fun after_gt :: "string \<Rightarrow> string option" where
  "after_gt [] = None"
| "after_gt (c # cs) = (if c = CHR ''>'' then Some cs else after_gt cs)"

text \<open>\<^verbatim>\<open>[\s\S]*?\<close> followed by the closing tag: the text after its first occurrence.\<close>

fun after_close :: "string \<Rightarrow> string \<Rightarrow> string option" where
  "after_close cl [] = None"
| "after_close cl (c # cs) =
     (if prefix_ci cl (c # cs) then Some (drop (length cl) (c # cs)) else after_close cl cs)"

text \<open>A match of the whole expression at the start of the text: what follows the match.\<close>

definition match_block :: "string \<Rightarrow> string \<Rightarrow> string option" where
  "match_block tag s =
     (if prefix_ci (CHR ''<'' # tag) s
      then case after_gt (drop (Suc (length tag)) s) of
             None \<Rightarrow> None
           | Some t \<Rightarrow> after_close (''</'' @ tag @ ''>'') t
      else None)"

text \<open>
  \<^verbatim>\<open>html.replace(re, '')\<close> with the \<^verbatim>\<open>g\<close> flag: matches are sought from left to
  right, each search starting where the previous match ended.
\<close>

function remove_blocks :: "string \<Rightarrow> string \<Rightarrow> string" where
  "remove_blocks tag [] = []"
| "remove_blocks tag (c # cs) =
     (case match_block tag (c # cs) of
        Some rest \<Rightarrow> remove_blocks tag rest
      | None \<Rightarrow> c # remove_blocks tag cs)"
  by pat_completeness auto
termination
proof (relation "measure (\<lambda>(tag, s). length s)")
  show "wf (measure (\<lambda>(tag, s). length s))" by simp
next
  fix tag :: string and c :: char and cs rest :: string
  assume m: "match_block tag (c # cs) = Some rest"
  have gt: "after_gt s = Some r \<Longrightarrow> length r < length s" for s r
    by (induction s) (auto split: if_splits)
  have cl: "after_close k s = Some r \<Longrightarrow> length r \<le> length s" for k s r
    by (induction s) (auto split: if_splits)
  from m obtain t where t: "after_gt (drop (Suc (length tag)) (c # cs)) = Some t"
    and r: "after_close (''</'' @ tag @ ''>'') t = Some rest"
    by (auto simp: match_block_def split: if_splits option.splits)
  have "length t < length (drop (Suc (length tag)) (c # cs))" using gt [OF t] .
  then have "length t < length (c # cs)" by simp
  with cl [OF r] have "length rest < length (c # cs)" by simp
  then show "((tag, rest), (tag, c # cs)) \<in> measure (\<lambda>(tag, s). length s)" by simp
next
  fix tag :: string and c :: char and cs :: string
  show "((tag, cs), (tag, c # cs)) \<in> measure (\<lambda>(tag, s). length s)" by simp
qed

definition cleanHtmlContent :: "string \<Rightarrow> string" where
  "cleanHtmlContent html =
     (if html = [] then []
      else remove_blocks ''style'' (remove_blocks ''script'' html))"

subsection \<open>generateRSSFeed\<close>

text \<open>
  The callback of \<^verbatim>\<open>map\<close>: the four local constants of the source, and the template
  literal of one item. \<^verbatim>\<open>post.publish_date ? ... : currentDate\<close> takes the number 0
  as falsy.
\<close>

definition item_pubDate :: "string \<Rightarrow> post \<Rightarrow> string" where
  "item_pubDate currentDate p =
     (case publish_date p of
        None \<Rightarrow> currentDate
      | Some t \<Rightarrow> if t = 0 then currentDate else toUTCString t)"

text \<open>\<^verbatim>\<open>${post.id}\<close> in the template literal of the fallback URL.\<close>

definition id_text :: "id_value \<Rightarrow> string" where
  "id_text v = (case v of IdUndefined \<Rightarrow> ''undefined'' | IdNull \<Rightarrow> ''null'' | IdString s \<Rightarrow> s)"

definition item_postUrl :: "config \<Rightarrow> post \<Rightarrow> string" where
  "item_postUrl cfg p =
     or_else (web_url p) (feedUrl cfg @ ''/post/'' @ id_text (post_id p))"

text \<open>\<^verbatim>\<open>post.content?.free?.web\<close>: missing as soon as one link of the chain is.\<close>

definition content_free_web :: "post \<Rightarrow> string option" where
  "content_free_web p =
     (case content p of
        None \<Rightarrow> None
      | Some c \<Rightarrow> (case free c of None \<Rightarrow> None | Some f \<Rightarrow> web f))"

definition item_content :: "post \<Rightarrow> string" where
  "item_content p = cleanHtmlContent (or_else (content_free_web p) (or_else (subtitle p) []))"

definition item_title :: "post \<Rightarrow> string" where
  "item_title p = escapeXml (or_else (post_title p) ''Untitled Post'')"

definition rssItem :: "config \<Rightarrow> string \<Rightarrow> post \<Rightarrow> string" where
  \<open>rssItem cfg currentDate p =
     ''\<newline>    <item>\<newline>      <title>'' @ item_title p @
     ''</title>\<newline>      <link>'' @ item_postUrl cfg p @
     ''</link>\<newline>      <guid>'' @ item_postUrl cfg p @
     ''</guid>\<newline>      <pubDate>'' @ item_pubDate currentDate p @
     ''</pubDate>\<newline>      <author>'' @ authorEmail cfg @
     ''</author>\<newline>      <description><![CDATA['' @ item_content p @
     '']]></description>\<newline>    </item>''\<close>

text \<open>\<^verbatim>\<open>posts.filter(...).slice(0, 20).map(...)\<close>, before the \<^verbatim>\<open>join('')\<close>.\<close>

definition confirmed :: "post \<Rightarrow> bool" where
  "confirmed p = (status p = Some ''confirmed'')"

definition rssItemList :: "config \<Rightarrow> string \<Rightarrow> post list \<Rightarrow> string list" where
  "rssItemList cfg currentDate posts =
     map (rssItem cfg currentDate) (take 20 (filter confirmed posts))"

definition rssItems :: "config \<Rightarrow> string \<Rightarrow> post list \<Rightarrow> string" where
  "rssItems cfg currentDate posts = concat (rssItemList cfg currentDate posts)"

text \<open>The template literal of the document, with its three interpolated locals.\<close>

definition document :: "config \<Rightarrow> string \<Rightarrow> string \<Rightarrow> string" where
  \<open>document cfg currentDate items =
     ''<?xml version="1.0" encoding="UTF-8"?>\<newline><rss version="2.0" xmlns:content="http://purl.org/rss/1.0/modules/content/" xmlns:dc="http://purl.org/dc/elements/1.1/">\<newline>  <channel>\<newline>    <title>'' @
     escapeXml (title cfg) @
     ''</title>\<newline>    <link>'' @ feedUrl cfg @
     ''</link>\<newline>    <description>'' @ escapeXml (description cfg) @
     ''</description>\<newline>    <language>en-us</language>\<newline>    <lastBuildDate>'' @ currentDate @
     ''</lastBuildDate>\<newline>    <managingEditor>'' @ authorEmail cfg @
     ''</managingEditor>\<newline>    <webMaster>'' @ authorEmail cfg @
     ''</webMaster>\<newline>    <generator>Beehiiv to Squarespace RSS Generator</generator>\<newline>    <ttl>60</ttl>'' @
     items @
     ''\<newline>  </channel>\<newline></rss>''\<close>

text \<open>
  The clock is read once, by \<^verbatim>\<open>new Date()\<close> in the second statement; \<open>now\<close> is that
  reading, in milliseconds since the epoch.
\<close>

definition generateRSSFeed :: "post list \<Rightarrow> config \<Rightarrow> int \<Rightarrow> string" where
  "generateRSSFeed posts cfg now =
     (let currentDate = toUTCString now
      in document cfg currentDate (rssItems cfg currentDate posts))"

section \<open>The request handler\<close>

text \<open>
  The environment maps a variable to its value, if it is set. The upstream API is a
  function from the request to what \<^verbatim>\<open>fetch\<close> gives: \<open>Inl msg\<close> when the promise
  rejects with an error of message \<open>msg\<close>, else a response with its status, its body
  as \<^verbatim>\<open>text()\<close> reads it and as \<^verbatim>\<open>json()\<close> reads it: \<open>Inl msg\<close> when parsing
  throws an error of message \<open>msg\<close>, else the parsed value. A parsed value is
  \<open>Raises msg\<close> when the statements after the parse throw on it an error of message
  \<open>msg\<close>: the value \<^verbatim>\<open>null\<close> (reading \<^verbatim>\<open>data\<close> of it throws), a \<^verbatim>\<open>data\<close>
  that is truthy and not an array (it has no \<^verbatim>\<open>filter\<close>), an array holding
  \<^verbatim>\<open>null\<close>, or a rendered post whose title, or whose \<^verbatim>\<open>content.free.web\<close> or
  else subtitle, is truthy and not a string (it has no \<^verbatim>\<open>replace\<close>). Else it is \<open>Data d\<close>, with \<open>d\<close>
  the posts of its \<^verbatim>\<open>data\<close>, or \<open>None\<close> when \<^verbatim>\<open>data\<close> is missing or falsy. The
  handler returns the response it writes and the list of the requests it sent. Each path through
  the handler reads the clock once; \<open>now\<close> is that reading. Console output is left out.
\<close>

type_synonym env = "string \<Rightarrow> string option"

record request =
  req_method :: string
  req_url :: string
  req_headers :: "(string \<times> string) list"

datatype parsed = Raises string | Data "post list option"

record fetch_response =
  resp_status :: nat
  resp_text :: string
  resp_json :: "string + parsed"

type_synonym upstream = "request \<Rightarrow> string + fetch_response"

datatype body = Json "(string \<times> string) list" | Text string

record response =
  code :: nat
  headers :: "(string \<times> string) list"
  payload :: body

definition resp_ok :: "fetch_response \<Rightarrow> bool" where
  "resp_ok r = (200 \<le> resp_status r \<and> resp_status r \<le> 299)"

text \<open>The response of the first \<^verbatim>\<open>return\<close>, when a required variable is not set.\<close>

definition config_error :: response where
  "config_error =
     \<lparr>code = 500, headers = [],
      payload = Json
        [(''error'', ''Missing required environment variables''),
         (''details'', ''BEEHIIV_API_KEY and BEEHIIV_PUBLICATION_ID must be set in Vercel dashboard'')]\<rparr>"

text \<open>The response of the \<^verbatim>\<open>catch\<close> block, for an error of message \<open>msg\<close>.\<close>

definition failure :: "string \<Rightarrow> int \<Rightarrow> response" where
  "failure msg now =
     \<lparr>code = 500, headers = [],
      payload = Json
        [(''error'', ''Failed to generate RSS feed''),
         (''details'', msg),
         (''timestamp'', toISOString now)]\<rparr>"

definition success :: "string \<Rightarrow> response" where
  "success rssXml =
     \<lparr>code = 200,
      headers =
        [(''Content-Type'', ''application/rss+xml; charset=utf-8''),
         (''Cache-Control'', ''public, s-maxage=3600, stale-while-revalidate=86400'')],
      payload = Text rssXml\<rparr>"

text \<open>The configuration passed to the renderer: each value has a default.\<close>

definition feed_config :: "env \<Rightarrow> config" where
  "feed_config env =
     \<lparr>title = or_else (env ''FEED_TITLE'') ''Your Newsletter'',
      description = or_else (env ''FEED_DESCRIPTION'') ''Latest posts from your newsletter'',
      feedUrl = or_else (env ''FEED_URL'') ''https://your-site.com'',
      authorEmail = or_else (env ''AUTHOR_EMAIL'') ''your-email@domain.com''\<rparr>"

text \<open>The arguments of the one call of \<^verbatim>\<open>fetch\<close>.\<close>

definition beehiiv_request :: "env \<Rightarrow> request" where
  "beehiiv_request env =
     \<lparr>req_method = ''GET'',
      req_url =
        ''https://api.beehiiv.com/v2/publications/'' @
        interpolate (env ''BEEHIIV_PUBLICATION_ID'') @ ''/posts'',
      req_headers =
        [(''Content-Type'', ''application/json''),
         (''Authorization'', ''Bearer '' @ interpolate (env ''BEEHIIV_API_KEY''))]\<rparr>"

definition handler :: "env \<Rightarrow> upstream \<Rightarrow> int \<Rightarrow> response \<times> request list" where
  "handler env fetch now =
     (if \<not> truthy (env ''BEEHIIV_API_KEY'') \<or> \<not> truthy (env ''BEEHIIV_PUBLICATION_ID'')
      then (config_error, [])
      else
        let req = beehiiv_request env
        in case fetch req of
             Inl msg \<Rightarrow> (failure msg now, [req])
           | Inr beehiivResponse \<Rightarrow>
               if \<not> resp_ok beehiivResponse
               then (failure
                       (''Beehiiv API responded with status: '' @
                        decimal (resp_status beehiivResponse) @ '' - '' @
                        resp_text beehiivResponse) now, [req])
               else case resp_json beehiivResponse of
                      Inl msg \<Rightarrow> (failure msg now, [req])
                    | Inr (Raises msg) \<Rightarrow> (failure msg now, [req])
                    | Inr (Data data) \<Rightarrow>
                        (success
                           (generateRSSFeed (case data of None \<Rightarrow> [] | Some ps \<Rightarrow> ps)
                              (feed_config env) now),
                         [req]))"

section \<open>Notions used to state the properties\<close>

text \<open>
  The definitions of this section are not taken from the program: they say what its
  output is compared with.
\<close>

text \<open>The entity XML escaping gives one character: the five special ones, else itself.\<close>

definition xml_entity :: "char \<Rightarrow> string" where
  "xml_entity c =
     (if c = CHR ''&'' then ''&amp;''
      else if c = CHR ''<'' then ''&lt;''
      else if c = CHR ''>'' then ''&gt;''
      else if c = CHR 0x22 then ''&quot;''
      else if c = CHR 0x27 then ''&#39;''
      else [c])"

text \<open>Decoding the five entities, as a reader of the XML does.\<close>

fun unescapeXml :: "string \<Rightarrow> string" where
  "unescapeXml [] = []"
| "unescapeXml (c # s) =
     (if c \<noteq> CHR ''&'' then c # unescapeXml s
      else if take 4 s = ''amp;'' then CHR ''&'' # unescapeXml (drop 4 s)
      else if take 3 s = ''lt;'' then CHR ''<'' # unescapeXml (drop 3 s)
      else if take 3 s = ''gt;'' then CHR ''>'' # unescapeXml (drop 3 s)
      else if take 5 s = ''quot;'' then CHR 0x22 # unescapeXml (drop 5 s)
      else if take 4 s = ''#39;'' then CHR 0x27 # unescapeXml (drop 4 s)
      else c # unescapeXml s)"

text \<open>
  An element with a text body; lines each started by a line break and an indentation;
  the nine children of the channel; an item with its six children; the XML declaration
  with the opening tag of \<^verbatim>\<open>rss\<close>.
\<close>

definition element :: "string \<Rightarrow> string \<Rightarrow> string" where
  "element name text = ''<'' @ name @ ''>'' @ text @ ''</'' @ name @ ''>''"

definition indented :: "nat \<Rightarrow> string list \<Rightarrow> string" where
  "indented n ls = concat (map (\<lambda>l. CHR ''\<newline>'' # replicate n (CHR '' '') @ l) ls)"

definition channel_children :: "config \<Rightarrow> string \<Rightarrow> string list" where
  "channel_children cfg buildDate =
     [element ''title'' (escapeXml (title cfg)),
      element ''link'' (feedUrl cfg),
      element ''description'' (escapeXml (description cfg)),
      element ''language'' ''en-us'',
      element ''lastBuildDate'' buildDate,
      element ''managingEditor'' (authorEmail cfg),
      element ''webMaster'' (authorEmail cfg),
      element ''generator'' ''Beehiiv to Squarespace RSS Generator'',
      element ''ttl'' ''60'']"

definition item_element :: "string \<Rightarrow> string \<Rightarrow> string \<Rightarrow> string \<Rightarrow> string \<Rightarrow> string \<Rightarrow> string" where
  "item_element t l g pd a desc =
     indented 4 [''<item>''] @
     indented 6
       [element ''title'' t, element ''link'' l, element ''guid'' g, element ''pubDate'' pd,
        element ''author'' a, element ''description'' (''<![CDATA['' @ desc @ '']]>'')] @
     indented 4 [''</item>'']"

definition prolog :: string where
  \<open>prolog = ''<?xml version="1.0" encoding="UTF-8"?>\<newline><rss version="2.0" xmlns:content="http://purl.org/rss/1.0/modules/content/" xmlns:dc="http://purl.org/dc/elements/1.1/">''\<close>






section \<open>Properties of the feed renderer\<close>

subsection \<open>Auxiliary facts\<close>

lemma replace_all_append: "replace_all c r (xs @ ys) = replace_all c r xs @ replace_all c r ys"
  by (induction xs) auto

lemma escape_passes:
  "replace_all (CHR 0x27) ''&#39;''
     (replace_all (CHR 0x22) ''&quot;''
       (replace_all (CHR ''>'') ''&gt;''
         (replace_all (CHR ''<'') ''&lt;''
           (replace_all (CHR ''&'') ''&amp;'' s)))) = concat (map xml_entity s)"
proof (induction s)
  case Nil
  show ?case by simp
next
  case (Cons x xs)
  let ?passes = "\<lambda>s. replace_all (CHR 0x27) ''&#39;''
     (replace_all (CHR 0x22) ''&quot;''
       (replace_all (CHR ''>'') ''&gt;''
         (replace_all (CHR ''<'') ''&lt;''
           (replace_all (CHR ''&'') ''&amp;'' s))))"
  have "?passes (x # xs) = xml_entity x @ ?passes xs"
    by (simp add: xml_entity_def replace_all_append)
  with Cons.IH show ?case by simp
qed

lemma escapeXml_entities:
  "escapeXml s = concat (map xml_entity s)"
  by (cases s) (simp_all add: escapeXml_def escape_passes del: replace_all.simps)

lemma unescape_entity: "unescapeXml (xml_entity c @ s) = c # unescapeXml s"
  by (simp add: xml_entity_def)

lemma unescape_escape: "unescapeXml (concat (map xml_entity s)) = s"
  by (induction s) (simp_all add: unescape_entity del: unescapeXml.simps(2))

lemma replicate_4: "replicate 4 x = [x, x, x, x]" by (simp add: numeral_eq_Suc)
lemma replicate_6: "replicate 6 x = [x, x, x, x, x, x]" by (simp add: numeral_eq_Suc)

lemma rssItem_layout:
  "rssItem cfg d p =
     item_element (item_title p) (item_postUrl cfg p) (item_postUrl cfg p) (item_pubDate d p)
       (authorEmail cfg) (item_content p)"
  by (simp add: rssItem_def item_element_def indented_def element_def replicate_4 replicate_6)

lemma document_layout:
  "document cfg d items =
     prolog @ indented 2 [''<channel>''] @ indented 4 (channel_children cfg d) @ items @
     indented 2 [''</channel>''] @ indented 0 [''</rss>'']"
  by (simp add: document_def prolog_def indented_def channel_children_def element_def replicate_4
      numeral_2_eq_2)

lemma sublist_in_context: "s = a @ x @ b \<Longrightarrow> sublist x s"
  by (simp add: sublist_appendI)

lemma sublist_element_item:
  "sublist (element ''title'' t) (item_element t l g pd a desc)"
  by (rule sublist_in_context [where a = "indented 4 [''<item>''] @ ''\<newline>      ''"])
     (simp add: item_element_def indented_def replicate_6)

lemma sublist_document_title:
  "sublist (element ''title'' (escapeXml (title cfg))) (document cfg d items)"
  by (rule sublist_in_context [where a = "prolog @ indented 2 [''<channel>''] @ ''\<newline>    ''"])
     (simp add: document_layout channel_children_def indented_def replicate_4)

lemma sublist_document_description:
  "sublist (element ''description'' (escapeXml (description cfg))) (document cfg d items)"
  by (rule sublist_in_context [where a = "prolog @ indented 2 [''<channel>''] @
        indented 4 [element ''title'' (escapeXml (title cfg)), element ''link'' (feedUrl cfg)] @
        ''\<newline>    ''"])
     (simp add: document_layout channel_children_def indented_def replicate_4)

lemma generateRSSFeed_items:
  "generateRSSFeed posts cfg now =
     document cfg (toUTCString now)
       (concat (map (rssItem cfg (toUTCString now)) (take 20 (filter confirmed posts))))"
  by (simp add: generateRSSFeed_def rssItems_def rssItemList_def Let_def)

lemma confirmed_status: "confirmed = (\<lambda>p. status p = Some ''confirmed'')"
  by (rule ext) (simp add: confirmed_def)

lemma toUTCString_examples:
  "toUTCString 1700000000000 = ''Tue, 14 Nov 2023 22:13:20 GMT''"
  "toUTCString 1700000001000 = ''Tue, 14 Nov 2023 22:13:21 GMT''"
  by code_simp+

lemma toUTCString_example: "toUTCString 1700000000123 = ''Tue, 14 Nov 2023 22:13:20 GMT''"
  by code_simp

lemma escape_example:
  \<open>escapeXml ''<a href="x">Tom & Jerry's</a>'' =
     ''&lt;a href=&quot;x&quot;&gt;Tom &amp; Jerry&#39;s&lt;/a&gt;''\<close>
  by code_simp
















lemma generateRSSFeed_text:
  "generateRSSFeed posts cfg now =
     prolog @ indented 2 [''<channel>''] @
     indented 4 (channel_children cfg (toUTCString now)) @
     concat (map (\<lambda>p. item_element (item_title p) (item_postUrl cfg p) (item_postUrl cfg p)
                         (item_pubDate (toUTCString now) p) (authorEmail cfg) (item_content p))
              (take 20 (filter (\<lambda>p. status p = Some ''confirmed'') posts))) @
     indented 2 [''</channel>''] @ indented 0 [''</rss>'']"
proof -
  have r: "rssItem cfg d = (\<lambda>p. item_element (item_title p) (item_postUrl cfg p) (item_postUrl cfg p)
                         (item_pubDate d p) (authorEmail cfg) (item_content p))" for d
    by (rule ext) (rule rssItem_layout)
  show ?thesis
    unfolding generateRSSFeed_items document_layout confirmed_status r ..
qed

lemma div_whole_second:
  fixes t k :: int
  assumes "0 < k"
  shows "(t - t mod 1000) div (1000 * k) = t div (1000 * k)"
proof -
  have "t - t mod 1000 = 1000 * (t div 1000)"
    by (simp add: minus_mod_eq_mult_div)
  then have "(t - t mod 1000) div (1000 * k) = (t div 1000) div k"
    by simp
  also have "\<dots> = t div (1000 * k)"
    using assms by (simp add: zdiv_zmult2_eq)
  finally show ?thesis .
qed

lemma day_of_whole_second: "day_of (t - t mod 1000) = day_of t"
  using div_whole_second [of 86400 t] by (simp add: day_of_def)

lemma hms_whole_second: "hms (t - t mod 1000) = hms t"
  using div_whole_second [of 3600 t] div_whole_second [of 60 t] div_whole_second [of 1 t]
  by (simp add: hms_def)

lemma valid_whole_second: "valid_time t \<Longrightarrow> valid_time (t - t mod 1000)"
proof -
  assume v: "valid_time t"
  have "0 \<le> t mod 1000" "t mod 1000 < 1000" by simp_all
  moreover have "- 8640000000000000 \<le> t - t mod 1000"
  proof -
    from v have "- 8640000000000000 \<le> t" by (simp add: valid_time_def)
    then have "(- 8640000000000000) div 1000 \<le> t div 1000" by (rule zdiv_mono1) simp
    then have "1000 * (- 8640000000000) \<le> 1000 * (t div 1000)" by simp
    then show ?thesis by (simp add: minus_mod_eq_mult_div)
  qed
  ultimately show ?thesis using v by (simp add: valid_time_def)
qed

lemma toUTCString_whole_second:
  "valid_time t \<Longrightarrow> toUTCString (t - t mod 1000) = toUTCString t"
  by (simp add: toUTCString_def valid_whole_second day_of_whole_second hms_whole_second
      week_day_name_def)

lemma whole_second_bounds:
  fixes t :: int
  shows "t - 1000 < t - t mod 1000 \<and> t - t mod 1000 \<le> t"
proof -
  have "0 \<le> t mod 1000" "t mod 1000 < 1000" by simp_all
  then show ?thesis by linarith
qed

lemma toUTCString_999: "toUTCString 1700000000999 = ''Tue, 14 Nov 2023 22:13:20 GMT''"
  by code_simp



subsection \<open>Escaping\<close>

text \<open>
  Claim C3. \<^verbatim>\<open>escapeXml\<close> replaces the ampersand first and then the four characters
  \<^verbatim>\<open>< > " '\<close>, and the result is what one pass replacing each character by its entity
  gives: an entity a later replacement introduces is not escaped again, and decoding the
  entities returns the original string. The channel title, the channel description and
  each item title stand escaped in this way in the rendered XML.
\<close>

theorem escapeXml_once:
  "escapeXml s = concat (map xml_entity s)
   \<and> unescapeXml (escapeXml s) = s
   \<and> sublist (element ''title'' (concat (map xml_entity (title cfg)))) (generateRSSFeed posts cfg now)
   \<and> sublist (element ''description'' (concat (map xml_entity (description cfg))))
        (generateRSSFeed posts cfg now)
   \<and> sublist (element ''title'' (concat (map xml_entity (or_else (post_title p) ''Untitled Post''))))
        (rssItem cfg d p)"
proof -
  have e: "escapeXml x = concat (map xml_entity x)" for x
    by (rule escapeXml_entities)
  have "sublist (element ''title'' (escapeXml (or_else (post_title p) ''Untitled Post''))) (rssItem cfg d p)"
    unfolding rssItem_layout item_title_def by (rule sublist_element_item)
  then show ?thesis
    using sublist_document_title [of cfg] sublist_document_description [of cfg]
    by (simp add: e unescape_escape generateRSSFeed_def Let_def)
qed

theorem escapeXml_once_witness:
  \<open>escapeXml ''<a href="x">Tom & Jerry's</a>'' =
     ''&lt;a href=&quot;x&quot;&gt;Tom &amp; Jerry&#39;s&lt;/a&gt;''
   \<and> unescapeXml ''&lt;a href=&quot;x&quot;&gt;Tom &amp; Jerry&#39;s&lt;/a&gt;'' =
     ''<a href="x">Tom & Jerry's</a>''\<close>
proof -
  have \<open>unescapeXml (escapeXml ''<a href="x">Tom & Jerry's</a>'') = ''<a href="x">Tom & Jerry's</a>''\<close>
    using escapeXml_once [of \<open>''<a href="x">Tom & Jerry's</a>''\<close>] by blast
  then have \<open>unescapeXml ''&lt;a href=&quot;x&quot;&gt;Tom &amp; Jerry&#39;s&lt;/a&gt;'' =
      ''<a href="x">Tom & Jerry's</a>''\<close>
    unfolding escape_example .
  with escape_example show ?thesis
    by (rule conjI)
qed

text \<open>
  Claim C1. The claim asks that every value placed outside CDATA be escaped. The
  renderer escapes the channel title, the channel description and the item title only:
  here a post whose \<^verbatim>\<open>web_url\<close> holds an ampersand is rendered with the ampersand of
  the title escaped and the one of \<^verbatim>\<open>link\<close> and \<^verbatim>\<open>guid\<close> as it came.
\<close>

theorem link_not_escaped:
  "rssItem
     \<lparr>title = ''News'', description = ''Latest'', feedUrl = ''https://example.com'',
       authorEmail = ''me@example.com''\<rparr>
     ''Tue, 14 Nov 2023 22:13:20 GMT''
     \<lparr>post_id = IdString ''post_42'', status = Some ''confirmed'', publish_date = Some 1700000000000,
       web_url = Some ''https://example.com/p?a=1&b=2'', post_title = Some ''Q&A'',
       subtitle = None, content = None\<rparr> =
   ''\<newline>    <item>\<newline>      <title>Q&amp;A</title>\<newline>      <link>https://example.com/p?a=1&b=2</link>\<newline>      <guid>https://example.com/p?a=1&b=2</guid>\<newline>      <pubDate>Tue, 14 Nov 2023 22:13:20 GMT</pubDate>\<newline>      <author>me@example.com</author>\<newline>      <description><![CDATA[]]></description>\<newline>    </item>''"
proof -
  have "escapeXml ''Q&A'' = ''Q&amp;A''"
    by code_simp
  then show ?thesis
    by (simp add: rssItem_def item_title_def item_postUrl_def item_pubDate_def item_content_def
        content_free_web_def cleanHtmlContent_def or_else_def toUTCString_examples)
qed

subsection \<open>Which posts become items\<close>

text \<open>
  Claim C2. The text of the document is the channel's head, then one item for each of
  the first 20 posts whose status is \<^verbatim>\<open>confirmed\<close>, in the order of the list, then the
  closing tags. A post of another status, anywhere in the list, changes nothing in the
  text, and once 20 posts are confirmed no later post does.
\<close>

theorem confirmed_posts_only:
  "generateRSSFeed posts cfg now =
     prolog @ indented 2 [''<channel>''] @
     indented 4 (channel_children cfg (toUTCString now)) @
     concat (map (\<lambda>p. item_element (item_title p) (item_postUrl cfg p) (item_postUrl cfg p)
                         (item_pubDate (toUTCString now) p) (authorEmail cfg) (item_content p))
              (take 20 (filter (\<lambda>p. status p = Some ''confirmed'') posts))) @
     indented 2 [''</channel>''] @ indented 0 [''</rss>'']
   \<and> (\<forall>before p after. status p \<noteq> Some ''confirmed'' \<longrightarrow>
        generateRSSFeed (before @ p # after) cfg now = generateRSSFeed (before @ after) cfg now)
   \<and> (\<forall>more. 20 \<le> length (filter (\<lambda>p. status p = Some ''confirmed'') posts) \<longrightarrow>
        generateRSSFeed (posts @ more) cfg now = generateRSSFeed posts cfg now)"
proof -
  have drop: "generateRSSFeed (before @ p # after) cfg now = generateRSSFeed (before @ after) cfg now"
    if "status p \<noteq> Some ''confirmed''" for before p after
    using that by (simp add: generateRSSFeed_text)
  have limit: "generateRSSFeed (posts @ more) cfg now = generateRSSFeed posts cfg now"
    if "20 \<le> length (filter (\<lambda>p. status p = Some ''confirmed'') posts)" for more
    using that by (simp add: generateRSSFeed_text)
  from generateRSSFeed_text [of posts cfg now] drop limit show ?thesis
    by blast
qed

theorem confirmed_posts_only_witness:
  \<open>generateRSSFeed
     (\<lparr>post_id = IdString ''a'', status = Some ''draft'', publish_date = None, web_url = None,
        post_title = None, subtitle = None, content = None\<rparr> #
      replicate 25
        \<lparr>post_id = IdString ''b'', status = Some ''confirmed'', publish_date = None, web_url = None,
          post_title = None, subtitle = None, content = None\<rparr>)
     \<lparr>title = ''News'', description = ''Latest'', feedUrl = ''https://example.com'',
       authorEmail = ''me@example.com''\<rparr> 1700000000123 =
   ''<?xml version="1.0" encoding="UTF-8"?>\<newline><rss version="2.0" xmlns:content="http://purl.org/rss/1.0/modules/content/" xmlns:dc="http://purl.org/dc/elements/1.1/">\<newline>  <channel>\<newline>    <title>News</title>\<newline>    <link>https://example.com</link>\<newline>    <description>Latest</description>\<newline>    <language>en-us</language>\<newline>    <lastBuildDate>Tue, 14 Nov 2023 22:13:20 GMT</lastBuildDate>\<newline>    <managingEditor>me@example.com</managingEditor>\<newline>    <webMaster>me@example.com</webMaster>\<newline>    <generator>Beehiiv to Squarespace RSS Generator</generator>\<newline>    <ttl>60</ttl>'' @
   concat (replicate 20
     ''\<newline>    <item>\<newline>      <title>Untitled Post</title>\<newline>      <link>https://example.com/post/b</link>\<newline>      <guid>https://example.com/post/b</guid>\<newline>      <pubDate>Tue, 14 Nov 2023 22:13:20 GMT</pubDate>\<newline>      <author>me@example.com</author>\<newline>      <description><![CDATA[]]></description>\<newline>    </item>'') @
   ''\<newline>  </channel>\<newline></rss>''\<close>
proof -
  let ?a = "\<lparr>post_id = IdString ''a'', status = Some ''draft'', publish_date = None, web_url = None,
        post_title = None, subtitle = None, content = None\<rparr>"
  let ?b = "\<lparr>post_id = IdString ''b'', status = Some ''confirmed'', publish_date = None, web_url = None,
          post_title = None, subtitle = None, content = None\<rparr>"
  let ?c = "\<lparr>title = ''News'', description = ''Latest'', feedUrl = ''https://example.com'',
       authorEmail = ''me@example.com''\<rparr>"
  let ?item = "item_element (item_title ?b) (item_postUrl ?c ?b) (item_postUrl ?c ?b)
      (item_pubDate (toUTCString 1700000000123) ?b) (authorEmail ?c) (item_content ?b)"
  have sel: "take 20 (filter (\<lambda>p. status p = Some ''confirmed'') (?a # replicate 25 ?b)) =
      replicate 20 ?b"
    by simp
  from confirmed_posts_only [of "?a # replicate 25 ?b" ?c 1700000000123]
  have "generateRSSFeed (?a # replicate 25 ?b) ?c 1700000000123 =
     prolog @ indented 2 [''<channel>''] @
     indented 4 (channel_children ?c (toUTCString 1700000000123)) @
     concat (map (\<lambda>p. item_element (item_title p) (item_postUrl ?c p) (item_postUrl ?c p)
                         (item_pubDate (toUTCString 1700000000123) p) (authorEmail ?c) (item_content p))
              (take 20 (filter (\<lambda>p. status p = Some ''confirmed'') (?a # replicate 25 ?b)))) @
     indented 2 [''</channel>''] @ indented 0 [''</rss>'']"
    by blast
  then have feed: "generateRSSFeed (?a # replicate 25 ?b) ?c 1700000000123 =
     prolog @ indented 2 [''<channel>''] @
     indented 4 (channel_children ?c (toUTCString 1700000000123)) @
     concat (replicate 20 ?item) @
     indented 2 [''</channel>''] @ indented 0 [''</rss>'']"
    unfolding sel by simp
  have e: "escapeXml ''News'' = ''News''" "escapeXml ''Latest'' = ''Latest''"
    "escapeXml ''Untitled Post'' = ''Untitled Post''"
    by code_simp+
  have item: "?item =
     ''\<newline>    <item>\<newline>      <title>Untitled Post</title>\<newline>      <link>https://example.com/post/b</link>\<newline>      <guid>https://example.com/post/b</guid>\<newline>      <pubDate>Tue, 14 Nov 2023 22:13:20 GMT</pubDate>\<newline>      <author>me@example.com</author>\<newline>      <description><![CDATA[]]></description>\<newline>    </item>''"
    by (simp add: item_element_def indented_def element_def replicate_4 replicate_6 item_title_def
        item_postUrl_def item_pubDate_def item_content_def content_free_web_def cleanHtmlContent_def
        or_else_def id_text_def e toUTCString_example)
  show ?thesis
    unfolding feed item
    by (simp add: prolog_def indented_def channel_children_def element_def e toUTCString_example
        replicate_4 numeral_2_eq_2)
qed

subsection \<open>The fields of an item\<close>

text \<open>
  Claim C6, as amended. For a post without \<^verbatim>\<open>web_url\<close>, link and guid are both the
  feed URL, \<^verbatim>\<open>/post/\<close> and the post's id as a template literal prints it. For a post
  without \<^verbatim>\<open>publish_date\<close>, pubDate is the date string of the clock reading the
  renderer takes when it starts; the string is written to the second, so it is the one
  of the reading with its milliseconds dropped: an instant not after the reading and less
  than one second before it. For a post without title, the title is
  \<^verbatim>\<open>Untitled Post\<close>. The renderer called at the reading \<open>now\<close> renders each item with
  the date string of \<open>now\<close>.
\<close>

theorem item_fallbacks:
  "(web_url p = None \<longrightarrow>
      rssItem cfg d p =
        item_element (item_title p)
          (feedUrl cfg @ ''/post/'' @
             (case post_id p of IdUndefined \<Rightarrow> ''undefined'' | IdNull \<Rightarrow> ''null'' | IdString i \<Rightarrow> i))
          (feedUrl cfg @ ''/post/'' @
             (case post_id p of IdUndefined \<Rightarrow> ''undefined'' | IdNull \<Rightarrow> ''null'' | IdString i \<Rightarrow> i))
          (item_pubDate d p) (authorEmail cfg) (item_content p))
   \<and> (publish_date p = None \<longrightarrow>
      rssItem cfg (toUTCString now) p =
        item_element (item_title p) (item_postUrl cfg p) (item_postUrl cfg p)
          (toUTCString now) (authorEmail cfg) (item_content p))
   \<and> (valid_time now \<longrightarrow>
        toUTCString now = toUTCString (now - now mod 1000) \<and>
        now - 1000 < now - now mod 1000 \<and> now - now mod 1000 \<le> now)
   \<and> (post_title p = None \<longrightarrow>
      rssItem cfg d p =
        item_element ''Untitled Post'' (item_postUrl cfg p) (item_postUrl cfg p)
          (item_pubDate d p) (authorEmail cfg) (item_content p))
   \<and> generateRSSFeed posts cfg now =
       prolog @ indented 2 [''<channel>''] @
       indented 4 (channel_children cfg (toUTCString now)) @
       concat (map (rssItem cfg (toUTCString now))
         (take 20 (filter (\<lambda>p. status p = Some ''confirmed'') posts))) @
       indented 2 [''</channel>''] @ indented 0 [''</rss>'']"
proof -
  have u: "escapeXml ''Untitled Post'' = ''Untitled Post''"
    by code_simp
  have feed: "generateRSSFeed posts cfg now =
       prolog @ indented 2 [''<channel>''] @
       indented 4 (channel_children cfg (toUTCString now)) @
       concat (map (rssItem cfg (toUTCString now))
         (take 20 (filter (\<lambda>p. status p = Some ''confirmed'') posts))) @
       indented 2 [''</channel>''] @ indented 0 [''</rss>'']"
    unfolding generateRSSFeed_items document_layout confirmed_status ..
  have second: "toUTCString now = toUTCString (now - now mod 1000) \<and>
        now - 1000 < now - now mod 1000 \<and> now - now mod 1000 \<le> now" if "valid_time now"
    using that toUTCString_whole_second [of now] whole_second_bounds [of now] by simp
  have fields:
    "web_url p = None \<longrightarrow>
      rssItem cfg d p =
        item_element (item_title p)
          (feedUrl cfg @ ''/post/'' @
             (case post_id p of IdUndefined \<Rightarrow> ''undefined'' | IdNull \<Rightarrow> ''null'' | IdString i \<Rightarrow> i))
          (feedUrl cfg @ ''/post/'' @
             (case post_id p of IdUndefined \<Rightarrow> ''undefined'' | IdNull \<Rightarrow> ''null'' | IdString i \<Rightarrow> i))
          (item_pubDate d p) (authorEmail cfg) (item_content p)"
    "publish_date p = None \<longrightarrow>
      rssItem cfg (toUTCString now) p =
        item_element (item_title p) (item_postUrl cfg p) (item_postUrl cfg p)
          (toUTCString now) (authorEmail cfg) (item_content p)"
    "post_title p = None \<longrightarrow>
      rssItem cfg d p =
        item_element ''Untitled Post'' (item_postUrl cfg p) (item_postUrl cfg p)
          (item_pubDate d p) (authorEmail cfg) (item_content p)"
    by (simp_all add: rssItem_layout item_postUrl_def item_pubDate_def item_title_def or_else_def
        id_text_def u)
  from fields second feed show ?thesis
    by blast
qed

theorem item_fallbacks_witness:
  "rssItem \<lparr>title = ''News'', description = ''Latest'', feedUrl = ''https://example.com'',
            authorEmail = ''me@example.com''\<rparr>
     (toUTCString 1700000000123)
     \<lparr>post_id = IdNull, status = Some ''confirmed'', publish_date = None,
      web_url = None, post_title = None, subtitle = Some ''Hello'', content = None\<rparr> =
   item_element ''Untitled Post'' ''https://example.com/post/null''
     ''https://example.com/post/null'' ''Tue, 14 Nov 2023 22:13:20 GMT'' ''me@example.com''
     ''Hello''
   \<and> toUTCString 1700000000123 = toUTCString 1700000000000
   \<and> (1700000000000::int) \<le> 1700000000123"
proof -
  let ?p = "\<lparr>post_id = IdNull, status = Some ''confirmed'', publish_date = None,
            web_url = None, post_title = None, subtitle = Some ''Hello'', content = None\<rparr>"
  let ?c = "\<lparr>title = ''News'', description = ''Latest'', feedUrl = ''https://example.com'',
            authorEmail = ''me@example.com''\<rparr>"
  note t = item_fallbacks [of ?p ?c "toUTCString 1700000000123" 1700000000123 "[]"]
  have absent: "web_url ?p = None" "publish_date ?p = None" "post_title ?p = None"
    by simp_all
  have valid: "valid_time 1700000000123"
    by (simp add: valid_time_def)
  have "cleanHtmlContent ''Hello'' = ''Hello''"
    by code_simp
  then have content: "item_content ?p = ''Hello''"
    by (simp add: item_content_def content_free_web_def or_else_def)
  have "escapeXml ''Untitled Post'' = ''Untitled Post''"
    by code_simp
  then have title: "item_title ?p = ''Untitled Post''"
    by (simp add: item_title_def or_else_def)
  from t absent have "rssItem ?c (toUTCString 1700000000123) ?p =
          item_element (item_title ?p)
            (feedUrl ?c @ ''/post/'' @
               (case post_id ?p of IdUndefined \<Rightarrow> ''undefined'' | IdNull \<Rightarrow> ''null'' | IdString i \<Rightarrow> i))
            (feedUrl ?c @ ''/post/'' @
               (case post_id ?p of IdUndefined \<Rightarrow> ''undefined'' | IdNull \<Rightarrow> ''null'' | IdString i \<Rightarrow> i))
            (item_pubDate (toUTCString 1700000000123) ?p) (authorEmail ?c) (item_content ?p)"
    by blast
  then have item: "rssItem ?c (toUTCString 1700000000123) ?p =
      item_element ''Untitled Post'' ''https://example.com/post/null''
        ''https://example.com/post/null'' ''Tue, 14 Nov 2023 22:13:20 GMT'' ''me@example.com''
        ''Hello''"
    by (simp add: title content item_pubDate_def toUTCString_example)
  from t valid have "toUTCString 1700000000123 = toUTCString (1700000000123 - 1700000000123 mod 1000)"
    by blast
  then have "toUTCString 1700000000123 = toUTCString 1700000000000"
    by simp
  with item show ?thesis by simp
qed

text \<open>
  Claim C6 as first stated asks that pubDate be no earlier than the moment the call
  began. A call that begins at the instant 1700000000999 and reads the clock at once
  writes the pubDate \<^verbatim>\<open>Tue, 14 Nov 2023 22:13:20 GMT\<close>, the date string of the instant
  1700000000000, which is 999 milliseconds before the call began.
\<close>

theorem pubDate_before_call:
  "rssItem \<lparr>title = ''News'', description = ''Latest'', feedUrl = ''https://example.com'',
            authorEmail = ''me@example.com''\<rparr>
     (toUTCString 1700000000999)
     \<lparr>post_id = IdString ''post_42'', status = Some ''confirmed'', publish_date = None,
      web_url = None, post_title = None, subtitle = Some ''Hello'', content = None\<rparr> =
   item_element ''Untitled Post'' ''https://example.com/post/post_42''
     ''https://example.com/post/post_42'' ''Tue, 14 Nov 2023 22:13:20 GMT'' ''me@example.com''
     ''Hello''
   \<and> toUTCString 1700000000000 = ''Tue, 14 Nov 2023 22:13:20 GMT''
   \<and> (1700000000000::int) < 1700000000999"
proof -
  have "cleanHtmlContent ''Hello'' = ''Hello''" "escapeXml ''Untitled Post'' = ''Untitled Post''"
    by code_simp+
  then show ?thesis
    by (simp add: rssItem_layout item_title_def item_postUrl_def item_pubDate_def item_content_def
        content_free_web_def or_else_def id_text_def toUTCString_999 toUTCString_examples)
qed

subsection \<open>The description of an item\<close>




subsection \<open>The document\<close>

text \<open>
  Claim C8. For every list of posts the renderer returns one document: the XML
  declaration and the \<^verbatim>\<open>rss\<close> tag, one \<^verbatim>\<open>channel\<close> whose children are, in this
  order, title, link, description, language \<^verbatim>\<open>en-us\<close>, lastBuildDate, managingEditor,
  webMaster, generator and ttl \<^verbatim>\<open>60\<close>, then the items, each with the children title,
  link, guid, pubDate, author and description in this order. With no confirmed post the
  channel has no item, and the document is returned all the same.
\<close>

theorem document_structure:
  "generateRSSFeed posts cfg now =
     prolog @ indented 2 [''<channel>''] @
     indented 4
       [element ''title'' (escapeXml (title cfg)),
        element ''link'' (feedUrl cfg),
        element ''description'' (escapeXml (description cfg)),
        element ''language'' ''en-us'',
        element ''lastBuildDate'' (toUTCString now),
        element ''managingEditor'' (authorEmail cfg),
        element ''webMaster'' (authorEmail cfg),
        element ''generator'' ''Beehiiv to Squarespace RSS Generator'',
        element ''ttl'' ''60''] @
     concat (map (\<lambda>p. item_element (item_title p) (item_postUrl cfg p) (item_postUrl cfg p)
                         (item_pubDate (toUTCString now) p) (authorEmail cfg) (item_content p))
              (take 20 (filter (\<lambda>p. status p = Some ''confirmed'') posts))) @
     indented 2 [''</channel>''] @ indented 0 [''</rss>'']
   \<and> (filter (\<lambda>p. status p = Some ''confirmed'') posts = [] \<longrightarrow>
        generateRSSFeed posts cfg now =
          prolog @ indented 2 [''<channel>''] @ indented 4 (channel_children cfg (toUTCString now)) @
          indented 2 [''</channel>''] @ indented 0 [''</rss>''])"
proof -
  have r: "rssItem cfg d = (\<lambda>p. item_element (item_title p) (item_postUrl cfg p) (item_postUrl cfg p)
                         (item_pubDate d p) (authorEmail cfg) (item_content p))" for d
    by (rule ext) (rule rssItem_layout)
  have "generateRSSFeed posts cfg now =
     prolog @ indented 2 [''<channel>''] @ indented 4 (channel_children cfg (toUTCString now)) @
     concat (map (rssItem cfg (toUTCString now)) (take 20 (filter confirmed posts))) @
     indented 2 [''</channel>''] @ indented 0 [''</rss>'']"
    unfolding generateRSSFeed_items document_layout ..
  then show ?thesis
    unfolding confirmed_status r channel_children_def by simp
qed

theorem document_structure_witness:
  \<open>generateRSSFeed
     [\<lparr>post_id = IdString ''a'', status = Some ''draft'', publish_date = None, web_url = None,
        post_title = None, subtitle = None, content = None\<rparr>]
     \<lparr>title = ''News'', description = ''Latest'', feedUrl = ''https://example.com'',
       authorEmail = ''me@example.com''\<rparr> 1700000000123 =
   ''<?xml version="1.0" encoding="UTF-8"?>\<newline><rss version="2.0" xmlns:content="http://purl.org/rss/1.0/modules/content/" xmlns:dc="http://purl.org/dc/elements/1.1/">\<newline>  <channel>\<newline>    <title>News</title>\<newline>    <link>https://example.com</link>\<newline>    <description>Latest</description>\<newline>    <language>en-us</language>\<newline>    <lastBuildDate>Tue, 14 Nov 2023 22:13:20 GMT</lastBuildDate>\<newline>    <managingEditor>me@example.com</managingEditor>\<newline>    <webMaster>me@example.com</webMaster>\<newline>    <generator>Beehiiv to Squarespace RSS Generator</generator>\<newline>    <ttl>60</ttl>\<newline>  </channel>\<newline></rss>''\<close>
proof -
  let ?ps = "[\<lparr>post_id = IdString ''a'', status = Some ''draft'', publish_date = None, web_url = None,
        post_title = None, subtitle = None, content = None\<rparr>]"
  let ?c = "\<lparr>title = ''News'', description = ''Latest'', feedUrl = ''https://example.com'',
       authorEmail = ''me@example.com''\<rparr>"
  have none: "filter (\<lambda>p. status p = Some ''confirmed'') ?ps = []"
    by simp
  have e: "escapeXml ''News'' = ''News''" "escapeXml ''Latest'' = ''Latest''"
    by code_simp+
  from document_structure [of ?ps ?c 1700000000123] none
  have "generateRSSFeed ?ps ?c 1700000000123 =
          prolog @ indented 2 [''<channel>''] @
          indented 4 (channel_children ?c (toUTCString 1700000000123)) @
          indented 2 [''</channel>''] @ indented 0 [''</rss>'']"
    by blast
  then show ?thesis
    by (simp add: prolog_def indented_def channel_children_def element_def e toUTCString_example
        replicate_4 numeral_2_eq_2)
qed

subsection \<open>The current time\<close>

text \<open>
  Claim C9, as amended. The output is a function of the posts, the configuration and the
  clock reading. Its text is written out below: the reading stands in lastBuildDate and
  in the pubDate of each rendered item whose post has no \<^verbatim>\<open>publish_date\<close> (or has 0
  there), and nowhere else. When every rendered post has a \<^verbatim>\<open>publish_date\<close> other
  than 0, the text before lastBuildDate and the text after it are the same at every
  time: two calls differ in lastBuildDate only.
\<close>

theorem time_dependence:
  "generateRSSFeed posts cfg now =
     prolog @ indented 2 [''<channel>''] @
     indented 4
       [element ''title'' (escapeXml (title cfg)), element ''link'' (feedUrl cfg),
        element ''description'' (escapeXml (description cfg)), element ''language'' ''en-us''] @
     indented 4 [element ''lastBuildDate'' (toUTCString now)] @
     indented 4
       [element ''managingEditor'' (authorEmail cfg), element ''webMaster'' (authorEmail cfg),
        element ''generator'' ''Beehiiv to Squarespace RSS Generator'', element ''ttl'' ''60''] @
     concat (map (\<lambda>p. item_element (item_title p) (item_postUrl cfg p) (item_postUrl cfg p)
                         (case publish_date p of
                            None \<Rightarrow> toUTCString now
                          | Some t \<Rightarrow> if t = 0 then toUTCString now else toUTCString t)
                         (authorEmail cfg) (item_content p))
              (take 20 (filter (\<lambda>p. status p = Some ''confirmed'') posts))) @
     indented 2 [''</channel>''] @ indented 0 [''</rss>'']
   \<and> ((\<forall>p \<in> set (take 20 (filter (\<lambda>p. status p = Some ''confirmed'') posts)).
          publish_date p \<noteq> None \<and> publish_date p \<noteq> Some 0) \<longrightarrow>
       generateRSSFeed posts cfg now =
         prolog @ indented 2 [''<channel>''] @
         indented 4
           [element ''title'' (escapeXml (title cfg)), element ''link'' (feedUrl cfg),
            element ''description'' (escapeXml (description cfg)), element ''language'' ''en-us''] @
         indented 4 [element ''lastBuildDate'' (toUTCString now)] @
         indented 4
           [element ''managingEditor'' (authorEmail cfg), element ''webMaster'' (authorEmail cfg),
            element ''generator'' ''Beehiiv to Squarespace RSS Generator'', element ''ttl'' ''60''] @
         concat (map (\<lambda>p. item_element (item_title p) (item_postUrl cfg p) (item_postUrl cfg p)
                             (case publish_date p of None \<Rightarrow> [] | Some t \<Rightarrow> toUTCString t)
                             (authorEmail cfg) (item_content p))
                  (take 20 (filter (\<lambda>p. status p = Some ''confirmed'') posts))) @
         indented 2 [''</channel>''] @ indented 0 [''</rss>''])
   \<and> ((\<forall>p \<in> set (take 20 (filter (\<lambda>p. status p = Some ''confirmed'') posts)).
          publish_date p \<noteq> None \<and> publish_date p \<noteq> Some 0) \<longrightarrow>
       (\<exists>before after. \<forall>t.
          generateRSSFeed posts cfg t =
            before @ indented 4 [element ''lastBuildDate'' (toUTCString t)] @ after))"
proof -
  let ?ps = "take 20 (filter (\<lambda>p. status p = Some ''confirmed'') posts)"
  let ?head = "prolog @ indented 2 [''<channel>''] @
     indented 4
       [element ''title'' (escapeXml (title cfg)), element ''link'' (feedUrl cfg),
        element ''description'' (escapeXml (description cfg)), element ''language'' ''en-us'']"
  let ?rest = "indented 4
       [element ''managingEditor'' (authorEmail cfg), element ''webMaster'' (authorEmail cfg),
        element ''generator'' ''Beehiiv to Squarespace RSS Generator'', element ''ttl'' ''60'']"
  let ?item = "\<lambda>d p. item_element (item_title p) (item_postUrl cfg p) (item_postUrl cfg p)
                         (case publish_date p of
                            None \<Rightarrow> d
                          | Some t \<Rightarrow> if t = 0 then d else toUTCString t)
                         (authorEmail cfg) (item_content p)"
  let ?dated = "\<lambda>p. item_element (item_title p) (item_postUrl cfg p) (item_postUrl cfg p)
                             (case publish_date p of None \<Rightarrow> [] | Some t \<Rightarrow> toUTCString t)
                             (authorEmail cfg) (item_content p)"
  let ?close = "indented 2 [''</channel>''] @ indented 0 [''</rss>'']"
  have children: "indented 4 (channel_children cfg d) =
      indented 4
       [element ''title'' (escapeXml (title cfg)), element ''link'' (feedUrl cfg),
        element ''description'' (escapeXml (description cfg)), element ''language'' ''en-us''] @
      indented 4 [element ''lastBuildDate'' d] @ ?rest" for d
    by (simp add: channel_children_def indented_def)
  have general: "generateRSSFeed posts cfg t =
      ?head @ indented 4 [element ''lastBuildDate'' (toUTCString t)] @ ?rest @
      concat (map (?item (toUTCString t)) ?ps) @ ?close" for t
    unfolding generateRSSFeed_text children by (simp add: item_pubDate_def)
  have fixed: "generateRSSFeed posts cfg t =
      ?head @ indented 4 [element ''lastBuildDate'' (toUTCString t)] @ ?rest @
      concat (map ?dated ?ps) @ ?close"
    if dated: "\<forall>p \<in> set ?ps. publish_date p \<noteq> None \<and> publish_date p \<noteq> Some 0" for t
  proof -
    have "map (?item (toUTCString t)) ?ps = map ?dated ?ps"
    proof (rule map_cong [OF refl])
      fix p assume "p \<in> set ?ps"
      with dated have "publish_date p \<noteq> None \<and> publish_date p \<noteq> Some 0" by blast
      then show "?item (toUTCString t) p = ?dated p"
        by (cases "publish_date p") auto
    qed
    then show ?thesis unfolding general by (simp only:)
  qed
  have only: "\<exists>before after. \<forall>t.
      generateRSSFeed posts cfg t = before @ indented 4 [element ''lastBuildDate'' (toUTCString t)] @ after"
    if dated: "\<forall>p \<in> set ?ps. publish_date p \<noteq> None \<and> publish_date p \<noteq> Some 0"
  proof -
    have "\<forall>t. generateRSSFeed posts cfg t =
        ?head @ indented 4 [element ''lastBuildDate'' (toUTCString t)] @
        (?rest @ concat (map ?dated ?ps) @ ?close)"
      using fixed [OF dated] by simp
    then show ?thesis by blast
  qed
  from general [of now] fixed [of now] only show ?thesis
    by (simp only: append_assoc) blast
qed


theorem time_dependence_witness:
  "\<exists>before after. \<forall>t.
     generateRSSFeed
       [\<lparr>post_id = IdString ''post_42'', status = Some ''confirmed'', publish_date = Some 1700000000000,
         web_url = None, post_title = Some ''Hello'', subtitle = None, content = None\<rparr>]
       \<lparr>title = ''News'', description = ''Latest'', feedUrl = ''https://example.com'',
         authorEmail = ''me@example.com''\<rparr> t =
     before @ indented 4 [element ''lastBuildDate'' (toUTCString t)] @ after"
proof -
  let ?p = "\<lparr>post_id = IdString ''post_42'', status = Some ''confirmed'', publish_date = Some 1700000000000,
         web_url = None, post_title = Some ''Hello'', subtitle = None, content = None\<rparr>"
  let ?c = "\<lparr>title = ''News'', description = ''Latest'', feedUrl = ''https://example.com'',
         authorEmail = ''me@example.com''\<rparr>"
  have "\<forall>p \<in> set (take 20 (filter (\<lambda>p. status p = Some ''confirmed'') [?p])).
          publish_date p \<noteq> None \<and> publish_date p \<noteq> Some 0"
    by simp
  with time_dependence [of "[?p]" ?c 0] show ?thesis
    by blast
qed

text \<open>
  Claim C9 as first stated, that two calls at different times differ in lastBuildDate
  only, fails for a confirmed post without \<^verbatim>\<open>publish_date\<close>: one second later the
  pubDate of the item has changed too, so that the later output with the earlier
  lastBuildDate put back is still not the earlier output.
\<close>

theorem time_reaches_pubDate:
  "generateRSSFeed
     [\<lparr>post_id = IdString ''post_42'', status = Some ''confirmed'', publish_date = None,
       web_url = None, post_title = Some ''Hello'', subtitle = None, content = None\<rparr>]
     \<lparr>title = ''News'', description = ''Latest'', feedUrl = ''https://example.com'',
       authorEmail = ''me@example.com''\<rparr> 1700000000000 =
   document
     \<lparr>title = ''News'', description = ''Latest'', feedUrl = ''https://example.com'',
       authorEmail = ''me@example.com''\<rparr> ''Tue, 14 Nov 2023 22:13:20 GMT''
     (item_element ''Hello'' ''https://example.com/post/post_42'' ''https://example.com/post/post_42''
        ''Tue, 14 Nov 2023 22:13:20 GMT'' ''me@example.com'' [])
   \<and> generateRSSFeed
     [\<lparr>post_id = IdString ''post_42'', status = Some ''confirmed'', publish_date = None,
       web_url = None, post_title = Some ''Hello'', subtitle = None, content = None\<rparr>]
     \<lparr>title = ''News'', description = ''Latest'', feedUrl = ''https://example.com'',
       authorEmail = ''me@example.com''\<rparr> 1700000001000 =
   document
     \<lparr>title = ''News'', description = ''Latest'', feedUrl = ''https://example.com'',
       authorEmail = ''me@example.com''\<rparr> ''Tue, 14 Nov 2023 22:13:21 GMT''
     (item_element ''Hello'' ''https://example.com/post/post_42'' ''https://example.com/post/post_42''
        ''Tue, 14 Nov 2023 22:13:21 GMT'' ''me@example.com'' [])
   \<and> document
     \<lparr>title = ''News'', description = ''Latest'', feedUrl = ''https://example.com'',
       authorEmail = ''me@example.com''\<rparr> ''Tue, 14 Nov 2023 22:13:20 GMT''
     (item_element ''Hello'' ''https://example.com/post/post_42'' ''https://example.com/post/post_42''
        ''Tue, 14 Nov 2023 22:13:21 GMT'' ''me@example.com'' []) \<noteq>
     generateRSSFeed
     [\<lparr>post_id = IdString ''post_42'', status = Some ''confirmed'', publish_date = None,
       web_url = None, post_title = Some ''Hello'', subtitle = None, content = None\<rparr>]
     \<lparr>title = ''News'', description = ''Latest'', feedUrl = ''https://example.com'',
       authorEmail = ''me@example.com''\<rparr> 1700000000000"
proof -
  have "escapeXml ''Hello'' = ''Hello''"
    by code_simp
  then show ?thesis
    by (simp add: generateRSSFeed_items confirmed_def rssItem_layout item_title_def item_postUrl_def
        item_pubDate_def item_content_def content_free_web_def cleanHtmlContent_def or_else_def
        id_text_def toUTCString_examples item_element_def indented_def element_def
        document_def)
qed

section \<open>Properties of the request handler\<close>

lemma details_mentions:
  "sublist ''BEEHIIV_API_KEY'' ''BEEHIIV_API_KEY and BEEHIIV_PUBLICATION_ID must be set in Vercel dashboard''"
  "sublist ''BEEHIIV_PUBLICATION_ID'' ''BEEHIIV_API_KEY and BEEHIIV_PUBLICATION_ID must be set in Vercel dashboard''"
  by code_simp+

lemma decimal_503: "decimal 503 = ''503''"
  by code_simp

lemma toISOString_example: "toISOString 1700000000123 = ''2023-11-14T22:13:20.123Z''"
  by code_simp

text \<open>
  Claim C4. When \<^verbatim>\<open>BEEHIIV_API_KEY\<close> or \<^verbatim>\<open>BEEHIIV_PUBLICATION_ID\<close> is not set, the
  handler answers with status 500 and a JSON body of exactly the two fields
  \<^verbatim>\<open>error\<close> and \<^verbatim>\<open>details\<close> (no \<^verbatim>\<open>timestamp\<close>), the details name both
  variables, and no request is sent upstream.
\<close>

theorem missing_configuration:
  assumes "env ''BEEHIIV_API_KEY'' = None \<or> env ''BEEHIIV_PUBLICATION_ID'' = None"
  shows "handler env fetch now =
           (\<lparr>code = 500, headers = [],
             payload = Json
               [(''error'', ''Missing required environment variables''),
                (''details'', ''BEEHIIV_API_KEY and BEEHIIV_PUBLICATION_ID must be set in Vercel dashboard'')]\<rparr>,
            [])
         \<and> sublist ''BEEHIIV_API_KEY'' ''BEEHIIV_API_KEY and BEEHIIV_PUBLICATION_ID must be set in Vercel dashboard''
         \<and> sublist ''BEEHIIV_PUBLICATION_ID'' ''BEEHIIV_API_KEY and BEEHIIV_PUBLICATION_ID must be set in Vercel dashboard''"
  using assms details_mentions by (auto simp: handler_def truthy_def config_error_def)

theorem missing_configuration_witness:
  "handler ((\<lambda>v. None)(''BEEHIIV_PUBLICATION_ID'' := Some ''pub_1'')) (\<lambda>r. Inl ''unused'') 1700000000123 =
     (\<lparr>code = 500, headers = [],
       payload = Json
         [(''error'', ''Missing required environment variables''),
          (''details'', ''BEEHIIV_API_KEY and BEEHIIV_PUBLICATION_ID must be set in Vercel dashboard'')]\<rparr>,
      [])"
  using missing_configuration [of "(\<lambda>v. None)(''BEEHIIV_PUBLICATION_ID'' := Some ''pub_1'')" "\<lambda>r. Inl ''unused''" 1700000000123]
  by simp

text \<open>
  Claim C10. A required variable set to the empty string is treated as one that is not
  set: the handler gives the same configuration error, the same result as with the
  variable removed from the environment, and sends no request upstream.
\<close>

theorem empty_configuration:
  assumes "env ''BEEHIIV_API_KEY'' = Some [] \<or> env ''BEEHIIV_PUBLICATION_ID'' = Some []"
  shows "handler env fetch now = (config_error, [])
         \<and> (env ''BEEHIIV_API_KEY'' = Some [] \<longrightarrow>
              handler env fetch now = handler (env(''BEEHIIV_API_KEY'' := None)) fetch now)
         \<and> (env ''BEEHIIV_PUBLICATION_ID'' = Some [] \<longrightarrow>
              handler env fetch now = handler (env(''BEEHIIV_PUBLICATION_ID'' := None)) fetch now)"
  using assms by (auto simp: handler_def truthy_def)

theorem empty_configuration_witness:
  "handler ((\<lambda>v. None)(''BEEHIIV_API_KEY'' := Some [], ''BEEHIIV_PUBLICATION_ID'' := Some ''pub_1''))
      (\<lambda>r. Inl ''unused'') 1700000000123 = (config_error, [])
   \<and> handler ((\<lambda>v. None)(''BEEHIIV_API_KEY'' := Some [], ''BEEHIIV_PUBLICATION_ID'' := Some ''pub_1''))
      (\<lambda>r. Inl ''unused'') 1700000000123 =
     handler (((\<lambda>v. None)(''BEEHIIV_API_KEY'' := Some [], ''BEEHIIV_PUBLICATION_ID'' := Some ''pub_1''))
                (''BEEHIIV_API_KEY'' := None))
      (\<lambda>r. Inl ''unused'') 1700000000123"
proof -
  have "((\<lambda>v. None)(''BEEHIIV_API_KEY'' := Some [], ''BEEHIIV_PUBLICATION_ID'' := Some ''pub_1''))
          ''BEEHIIV_API_KEY'' = Some []"
    by simp
  then show ?thesis
    using empty_configuration
      [of "(\<lambda>v. None)(''BEEHIIV_API_KEY'' := Some [], ''BEEHIIV_PUBLICATION_ID'' := Some ''pub_1'')"
          "\<lambda>r. Inl ''unused''" 1700000000123]
    by blast
qed

text \<open>
  Claim C5. When both required variables are set and the upstream response has a status
  outside 200..299, the handler answers with status 500 and the JSON body
  \<^verbatim>\<open>{error: "Failed to generate RSS feed", details, timestamp}\<close>, where the details
  contain the decimal status code and the text of the upstream body; exactly one request
  was sent, so nothing was retried.
\<close>

theorem upstream_failure:
  assumes "truthy (env ''BEEHIIV_API_KEY'')" and "truthy (env ''BEEHIIV_PUBLICATION_ID'')"
    and "fetch (beehiiv_request env) = Inr r"
    and "resp_status r < 200 \<or> 299 < resp_status r"
  shows "\<exists>details.
           handler env fetch now =
             (\<lparr>code = 500, headers = [],
               payload = Json
                 [(''error'', ''Failed to generate RSS feed''),
                  (''details'', details),
                  (''timestamp'', toISOString now)]\<rparr>,
              [beehiiv_request env])
           \<and> details =
               ''Beehiiv API responded with status: '' @ decimal (resp_status r) @ '' - '' @ resp_text r
           \<and> sublist (decimal (resp_status r)) details
           \<and> sublist (resp_text r) details"
proof -
  let ?d = "''Beehiiv API responded with status: '' @ decimal (resp_status r) @ '' - '' @ resp_text r"
  have h: "handler env fetch now = (failure ?d now, [beehiiv_request env])"
    using assms by (auto simp: handler_def resp_ok_def Let_def)
  have s1: "sublist (decimal (resp_status r)) ?d"
    by (rule sublist_appendI)
  have "sublist (resp_text r) ((''Beehiiv API responded with status: '' @ decimal (resp_status r) @ '' - '') @ resp_text r @ [])"
    by (rule sublist_appendI)
  then have s2: "sublist (resp_text r) ?d" by simp
  from h s1 s2 show ?thesis unfolding failure_def by blast
qed

theorem upstream_failure_witness:
  "handler ((\<lambda>v. None)(''BEEHIIV_API_KEY'' := Some ''key'', ''BEEHIIV_PUBLICATION_ID'' := Some ''pub_1''))
      (\<lambda>q. Inr \<lparr>resp_status = 503, resp_text = ''rate limited'', resp_json = Inl ''Unexpected token''\<rparr>)
      1700000000123 =
     (\<lparr>code = 500, headers = [],
       payload = Json
         [(''error'', ''Failed to generate RSS feed''),
          (''details'', ''Beehiiv API responded with status: 503 - rate limited''),
          (''timestamp'', ''2023-11-14T22:13:20.123Z'')]\<rparr>,
      [\<lparr>req_method = ''GET'',
        req_url = ''https://api.beehiiv.com/v2/publications/pub_1/posts'',
        req_headers = [(''Content-Type'', ''application/json''), (''Authorization'', ''Bearer key'')]\<rparr>])
   \<and> sublist ''503'' ''Beehiiv API responded with status: 503 - rate limited''
   \<and> sublist ''rate limited'' ''Beehiiv API responded with status: 503 - rate limited''"
  using upstream_failure
    [of "(\<lambda>v. None)(''BEEHIIV_API_KEY'' := Some ''key'', ''BEEHIIV_PUBLICATION_ID'' := Some ''pub_1'')"
        "\<lambda>q. Inr \<lparr>resp_status = 503, resp_text = ''rate limited'', resp_json = Inl ''Unexpected token''\<rparr>"
        "\<lparr>resp_status = 503, resp_text = ''rate limited'', resp_json = Inl ''Unexpected token''\<rparr>"
        1700000000123]
  by (simp add: truthy_def beehiiv_request_def interpolate_def decimal_503 toISOString_example)

end
